theory Spec2Isabelle
  imports Main "HOL-Library.Sublist"
begin

section \<open>Strings\<close>

text \<open>
  A JavaScript string is a sequence of code units; a \<open>char\<close> stands for a code unit below
  256, so the strings of the model are the texts written in Latin-1 (U+0000 to U+00FF).
  The character classes are those of the regular expressions and string methods the
  source uses, read on that range. Outside it lie further white space (U+1680, U+2000 to
  U+200A, U+202F, U+205F, U+3000, U+FEFF), the line terminators U+2028 and U+2029, which
  \<open>.\<close> refuses too, and the letters whose lower case the engine takes from the Unicode
  tables: a statement about all strings here is a statement about Latin-1 text.
\<close>

definition is_digit :: "char \<Rightarrow> bool" where
  \<comment> \<open>\<open>\d\<close>\<close>
  "is_digit c = (48 \<le> (of_char c :: nat) \<and> (of_char c :: nat) \<le> 57)"

definition is_word :: "char \<Rightarrow> bool" where
  \<comment> \<open>\<open>\w\<close>: letters, digits and the underscore\<close>
  "is_word c = (let n = (of_char c :: nat) in
     (48 \<le> n \<and> n \<le> 57) \<or> (65 \<le> n \<and> n \<le> 90) \<or> n = 95 \<or> (97 \<le> n \<and> n \<le> 122))"

definition is_space :: "char \<Rightarrow> bool" where
  \<comment> \<open>\<open>\s\<close> and the characters \<open>trim\<close> removes: tab, LF, VT, FF, CR, space, NBSP\<close>
  "is_space c = (let n = (of_char c :: nat) in (9 \<le> n \<and> n \<le> 13) \<or> n = 32 \<or> n = 160)"

definition is_line_terminator :: "char \<Rightarrow> bool" where
  \<comment> \<open>the characters of Latin-1 that \<open>.\<close> does not match: LF and CR\<close>
  "is_line_terminator c = ((of_char c :: nat) = 10 \<or> (of_char c :: nat) = 13)"

definition toLower :: "char \<Rightarrow> char" where
  "toLower c = (let n = (of_char c :: nat) in
     if (65 \<le> n \<and> n \<le> 90) \<or> (192 \<le> n \<and> n \<le> 222 \<and> n \<noteq> 215)
     then char_of (n + 32) else c)"

definition toLowerCase :: "string \<Rightarrow> string" where
  "toLowerCase s = map toLower s"

definition trim :: "string \<Rightarrow> string" where
  "trim s = rev (dropWhile is_space (rev (dropWhile is_space s)))"

fun includes_js :: "string \<Rightarrow> string \<Rightarrow> bool" where
  \<comment> \<open>\<open>s.includes(pat)\<close>\<close>
  "includes_js [] pat = (pat = [])"
| "includes_js (c # cs) pat = (prefix pat (c # cs) \<or> includes_js cs pat)"

definition endsWith :: "string \<Rightarrow> string \<Rightarrow> bool" where
  "endsWith s pat = suffix pat s"

fun split_on :: "char \<Rightarrow> string \<Rightarrow> string list" where
  \<comment> \<open>\<open>s.split(sep)\<close> for a separator of one character; \<open>"".split(sep)\<close> is \<open>[""]\<close>\<close>
  "split_on sep [] = [[]]"
| "split_on sep (c # cs) =
     (if c = sep then [] # split_on sep cs
      else (case split_on sep cs of [] \<Rightarrow> [[c]] | x # xs \<Rightarrow> (c # x) # xs))"

fun join :: "string \<Rightarrow> string list \<Rightarrow> string" where
  \<comment> \<open>\<open>xs.join(sep)\<close>\<close>
  "join sep [] = []"
| "join sep [x] = x"
| "join sep (x # y # ys) = x @ sep @ join sep (y # ys)"

fun findIndex :: "('a \<Rightarrow> bool) \<Rightarrow> 'a list \<Rightarrow> nat option" where
  \<comment> \<open>\<open>xs.findIndex(p)\<close>; \<open>None\<close> is the source's \<open>-1\<close>\<close>
  "findIndex P [] = None"
| "findIndex P (x # xs) = (if P x then Some 0 else map_option Suc (findIndex P xs))"

fun str_less :: "string \<Rightarrow> string \<Rightarrow> bool" where
  \<comment> \<open>the operator \<open><\<close> on strings: code unit by code unit\<close>
  "str_less [] [] = False"
| "str_less [] (y # ys) = True"
| "str_less (x # xs) [] = False"
| "str_less (x # xs) (y # ys) =
     ((of_char x :: nat) < of_char y \<or> (x = y \<and> str_less xs ys))"

definition str_le :: "string \<Rightarrow> string \<Rightarrow> bool" where
  "str_le a b = (a = b \<or> str_less a b)"





definition Number_js :: "string \<Rightarrow> int option" where
  \<comment> \<open>\<open>Number(s)\<close>: white space around the text is dropped, the empty text is 0, a
      text of decimal digits is its value. \<open>None\<close> stands for every other string, where
      JavaScript gives NaN or reads a literal with a sign, a point, an exponent or a
      radix prefix.\<close>
  "Number_js s =
     (let t = trim s in
      if t = [] then Some 0
      else if list_all is_digit t
      then Some (int (foldl (\<lambda>a c. 10 * a + (of_char c - 48)) 0 t))
      else None)"


section \<open>Time utilities (utils/time.ts)\<close>

definition parseTimeToMinutes :: "string \<Rightarrow> int option" where
  "parseTimeToMinutes timeStr =
     (case split_on CHR '':'' timeStr of
        h # m # _ \<Rightarrow>
          (case (Number_js h, Number_js m) of
             (Some hours, Some minutes) \<Rightarrow> Some (hours * 60 + minutes)
           | _ \<Rightarrow> None)
      | _ \<Rightarrow> None)"



definition timeToSlot :: "string \<Rightarrow> int option" where
  "timeToSlot timeStr = map_option (\<lambda>minutes. minutes div 15) (parseTimeToMinutes timeStr)"

section \<open>Record store (storage.ts)\<close>

text \<open>\<open>ParsedEntry\<close>: a \<open>TimeEntry\<close> with the line it was read from or written as.\<close>

record TimeEntry =
  eid :: string
  date :: string
  startTime :: string
  endTime :: string
  description :: string
  tags :: "string list"
  isPomodoro :: bool
  isBreak :: bool
  originalLine :: string

text \<open>\<open>Partial<TimeEntry>\<close>: a field that is \<open>None\<close> is absent from the update.\<close>

record TimeEntryUpdates =
  upd_id :: "string option"
  upd_date :: "string option"
  upd_startTime :: "string option"
  upd_endTime :: "string option"
  upd_description :: "string option"
  upd_tags :: "string list option"
  upd_isPomodoro :: "bool option"
  upd_isBreak :: "bool option"

definition noUpdates :: TimeEntryUpdates where
  "noUpdates = \<lparr>upd_id = None, upd_date = None, upd_startTime = None, upd_endTime = None,
     upd_description = None, upd_tags = None, upd_isPomodoro = None, upd_isBreak = None\<rparr>"

text \<open>The replacement of every match of \<open>/[:-]/g\<close> by the empty string.\<close>

definition generateStableId :: "string \<Rightarrow> string \<Rightarrow> string \<Rightarrow> string" where
  "generateStableId d s e =
     filter (\<lambda>c. c \<noteq> CHR '':'' \<and> c \<noteq> CHR ''-'') (d @ ''_'' @ s @ ''_'' @ e)"

definition is_date_field :: "string \<Rightarrow> bool" where
  \<comment> \<open>the whole string matches \<open>\d{4}-\d{2}-\d{2}\<close>\<close>
  "is_date_field d =
     (length d = 10 \<and> list_all is_digit (take 4 d) \<and> d ! 4 = CHR ''-'' \<and>
      list_all is_digit (take 2 (drop 5 d)) \<and> d ! 7 = CHR ''-'' \<and>
      list_all is_digit (drop 8 d))"

definition is_time_field :: "string \<Rightarrow> bool" where
  \<comment> \<open>the whole string matches \<open>\d{2}:\d{2}\<close>\<close>
  "is_time_field t =
     (length t = 5 \<and> list_all is_digit (take 2 t) \<and> t ! 2 = CHR '':'' \<and>
      list_all is_digit (drop 3 t))"

text \<open>
  \<open>ENTRY_REGEX\<close>, anchored at both ends. Its result is the four groups. The greedy
  \<open>\s+\<close> and \<open>\s*\<close> are each followed by something no white space matches (a digit,
  \<open>-\<close>, \<open>|\<close>), so they take all the white space there is; after the last \<open>\s*\<close> the
  group \<open>(.*)\<close> must reach the end of the string, which it does exactly when no line
  terminator is left.
\<close>

definition ENTRY_REGEX :: "string \<Rightarrow> (string \<times> string \<times> string \<times> string) option" where
  "ENTRY_REGEX s =
     (let d = take 10 s; r1 = drop 10 s; r2 = dropWhile is_space r1 in
      if is_date_field d \<and> r2 \<noteq> r1 then
        (let st = take 5 r2; r3 = dropWhile is_space (drop 5 r2) in
         if is_time_field st then
           (case r3 of
              [] \<Rightarrow> None
            | c3 # r4 \<Rightarrow>
                if c3 = CHR ''-'' then
                  (let r5 = dropWhile is_space r4; en = take 5 r5;
                       r6 = dropWhile is_space (drop 5 r5) in
                   if is_time_field en then
                     (case r6 of
                        [] \<Rightarrow> None
                      | c6 # r7 \<Rightarrow>
                          if c6 = CHR ''|'' then
                            (let rest = dropWhile is_space r7 in
                             if list_ex is_line_terminator rest then None
                             else Some (d, st, en, rest))
                          else None)
                   else None)
                else None)
         else None)
      else None)"

text \<open>\<open>desc.match(/#\w+/g)\<close>: the matches from left to right, none when there is none.\<close>

function match_tags :: "string \<Rightarrow> string list" where
  "match_tags [] = []"
| "match_tags (c # cs) =
     (if c = CHR ''#'' \<and> takeWhile is_word cs \<noteq> []
      then (c # takeWhile is_word cs) # match_tags (dropWhile is_word cs)
      else match_tags cs)"
  by pat_completeness auto
termination
  by (relation "measure length") (auto simp: length_dropWhile_le less_Suc_eq_le)

text \<open>\<open>desc.replace(/#\w+/g, "")\<close>.\<close>

function remove_tags :: "string \<Rightarrow> string" where
  "remove_tags [] = []"
| "remove_tags (c # cs) =
     (if c = CHR ''#'' \<and> takeWhile is_word cs \<noteq> []
      then remove_tags (dropWhile is_word cs)
      else c # remove_tags cs)"
  by pat_completeness auto
termination
  by (relation "measure length") (auto simp: length_dropWhile_le less_Suc_eq_le)

text \<open>
  \<open>s.replace(/pat/gi, "")\<close> for a literal \<open>pat\<close> given in lower case: each match, found
  from left to right without regard to letter case, is deleted.
\<close>

function remove_ci :: "string \<Rightarrow> string \<Rightarrow> string" where
  "remove_ci pat [] = []"
| "remove_ci pat (c # cs) =
     (if pat \<noteq> [] \<and> prefix pat (toLowerCase (c # cs))
      then remove_ci pat (drop (length pat) (c # cs))
      else c # remove_ci pat cs)"
  by pat_completeness auto
termination
  by (relation "measure (\<lambda>(pat, s). length s)") auto

definition parseDescription :: "string \<Rightarrow> string \<times> string list \<times> bool \<times> bool" where
  \<comment> \<open>the result is \<open>(description, tags, isPomodoro, isBreak)\<close>\<close>
  "parseDescription desc =
     (let tagMatches = match_tags desc;
          tags = map (drop 1) tagMatches;
          isPomodoro = includes_js desc ''(pomodoro)'';
          isBreak = (trim (toLowerCase desc) = ''break'' \<or>
                     includes_js (toLowerCase desc) ''(break)'');
          description = trim (remove_ci ''(break)'' (remove_ci ''(pomodoro)'' (remove_tags desc)))
      in (description, tags, isPomodoro, isBreak))"

text \<open>
  The break test as the specification words it, for comparison with the one in
  \<open>parseDescription\<close>: it is made on the text that remains after the tags are taken out.
\<close>

definition isBreak_after_tag_extraction :: "string \<Rightarrow> bool" where
  "isBreak_after_tag_extraction desc =
     (trim (toLowerCase (remove_tags desc)) = ''break'' \<or>
      includes_js (toLowerCase (remove_tags desc)) ''(break)'')"

definition parseLine :: "string \<Rightarrow> TimeEntry option" where
  \<comment> \<open>the body of the loop of \<open>parseContent\<close>\<close>
  "parseLine line =
     (let trimmed = trim line in
      if trimmed = [] then None
      else (case ENTRY_REGEX trimmed of
              None \<Rightarrow> None
            | Some (d, st, en, descriptionPart) \<Rightarrow>
                (case parseDescription descriptionPart of
                   (descr, tgs, pom, brk) \<Rightarrow>
                     Some \<lparr>eid = generateStableId d st en, date = d, startTime = st,
                           endTime = en, description = descr, tags = tgs,
                           isPomodoro = pom, isBreak = brk, originalLine = trimmed\<rparr>)))"

definition parseContent :: "string \<Rightarrow> TimeEntry list" where
  "parseContent content = List.map_filter parseLine (split_on CHR 0x0A content)"

definition formatEntry :: "TimeEntry \<Rightarrow> string" where
  "formatEntry entry =
     (let desc0 = description entry;
          desc1 = (if length (tags entry) > 0
                   then desc0 @ '' '' @ join '' '' (map (\<lambda>t. CHR ''#'' # t) (tags entry))
                   else desc0);
          desc2 = (if isPomodoro entry then desc1 @ '' (pomodoro)'' else desc1);
          desc3 = (if isBreak entry \<and> \<not> includes_js (toLowerCase desc2) ''break''
                   then ''Break'' else desc2)
      in date entry @ '' '' @ startTime entry @ '' - '' @ endTime entry @ '' | '' @ desc3)"

definition replaceLineInContent :: "string \<Rightarrow> string \<Rightarrow> string \<Rightarrow> string" where
  "replaceLineInContent content oldLine newLine =
     (let lines = split_on CHR 0x0A content in
      case findIndex (\<lambda>l. trim l = oldLine) lines of
        None \<Rightarrow> join [CHR 0x0A] lines
      | Some index \<Rightarrow> join [CHR 0x0A] (lines[index := newLine]))"

definition removeLineFromContent :: "string \<Rightarrow> string \<Rightarrow> string" where
  "removeLineFromContent content lineToRemove =
     (let lines = split_on CHR 0x0A content in
      case findIndex (\<lambda>l. trim l = lineToRemove) lines of
        None \<Rightarrow> join [CHR 0x0A] lines
      | Some index \<Rightarrow> join [CHR 0x0A] (take index lines @ drop (Suc index) lines))"

definition appendLineToContent :: "string \<Rightarrow> string \<Rightarrow> string" where
  "appendLineToContent content newLine =
     (if content = [] then newLine
      else (if \<not> endsWith content [CHR 0x0A] then content @ [CHR 0x0A] else content) @ newLine)"

text \<open>
  The state of a \<open>TimeTrackerStorage\<close> and of the vault it writes to: the records in
  memory, the content of the file at the configured path (\<open>None\<close> when there is no
  file) and the flag \<open>isSaving\<close>. The timer that clears the flag 100 ms after a write
  is a later event and is not part of an operation.
\<close>

record Storage =
  entries :: "TimeEntry list"
  fileContent :: "string option"
  isSaving :: bool

definition readFile :: "Storage \<Rightarrow> string option" where
  \<comment> \<open>\<open>None\<close> is the source's \<open>null\<close>; a file that exists is read without error\<close>
  "readFile s = fileContent s"

text \<open>
  \<open>writeFile\<close>: \<open>ok\<close> says whether the vault accepts the write; a refused write is
  caught and logged by the source and leaves the file as it was.
\<close>

definition writeFile :: "bool \<Rightarrow> string \<Rightarrow> Storage \<Rightarrow> Storage" where
  "writeFile ok content s = s\<lparr>fileContent := (if ok then Some content else fileContent s), isSaving := True\<rparr>"


definition applyUpdates :: "TimeEntry \<Rightarrow> TimeEntryUpdates \<Rightarrow> TimeEntry" where
  \<comment> \<open>\<open>{ ...oldEntry, ...updates }\<close>\<close>
  "applyUpdates e u =
     e\<lparr>eid := (case upd_id u of None \<Rightarrow> eid e | Some v \<Rightarrow> v),
       date := (case upd_date u of None \<Rightarrow> date e | Some v \<Rightarrow> v),
       startTime := (case upd_startTime u of None \<Rightarrow> startTime e | Some v \<Rightarrow> v),
       endTime := (case upd_endTime u of None \<Rightarrow> endTime e | Some v \<Rightarrow> v),
       description := (case upd_description u of None \<Rightarrow> description e | Some v \<Rightarrow> v),
       tags := (case upd_tags u of None \<Rightarrow> tags e | Some v \<Rightarrow> v),
       isPomodoro := (case upd_isPomodoro u of None \<Rightarrow> isPomodoro e | Some v \<Rightarrow> v),
       isBreak := (case upd_isBreak u of None \<Rightarrow> isBreak e | Some v \<Rightarrow> v)\<rparr>"

definition addEntry :: "bool \<Rightarrow> TimeEntry \<Rightarrow> Storage \<Rightarrow> Storage" where
  \<comment> \<open>the \<open>eid\<close> and \<open>originalLine\<close> of the argument are not read\<close>
  "addEntry ok entry s =
     (let newEntry0 = entry\<lparr>eid := generateStableId (date entry) (startTime entry) (endTime entry),
                             originalLine := []\<rparr>;
          formattedLine = formatEntry newEntry0;
          newEntry = newEntry0\<lparr>originalLine := formattedLine\<rparr>;
          content0 = (case readFile s of None \<Rightarrow> [] | Some c \<Rightarrow> c);
          content = appendLineToContent content0 formattedLine;
          s1 = writeFile ok content s
      in s1\<lparr>entries := entries s1 @ [newEntry]\<rparr>)"

definition updateEntry :: "bool \<Rightarrow> string \<Rightarrow> TimeEntryUpdates \<Rightarrow> Storage \<Rightarrow> Storage" where
  "updateEntry ok ident updates s =
     (case findIndex (\<lambda>e. eid e = ident) (entries s) of
        None \<Rightarrow> s
      | Some index \<Rightarrow>
          (let oldEntry = entries s ! index;
               oldLine = originalLine oldEntry;
               updated0 = applyUpdates oldEntry updates;
               updated1 = updated0\<lparr>eid := generateStableId (date updated0) (startTime updated0)
                                              (endTime updated0)\<rparr>;
               newLine = formatEntry updated1;
               updated = updated1\<lparr>originalLine := newLine\<rparr>;
               s1 = (case readFile s of
                       None \<Rightarrow> s
                     | Some content \<Rightarrow>
                         writeFile ok (replaceLineInContent content oldLine newLine) s)
           in s1\<lparr>entries := (entries s1)[index := updated]\<rparr>))"

definition deleteEntry :: "bool \<Rightarrow> string \<Rightarrow> Storage \<Rightarrow> Storage" where
  "deleteEntry ok ident s =
     (case findIndex (\<lambda>e. eid e = ident) (entries s) of
        None \<Rightarrow> s
      | Some index \<Rightarrow>
          (let entry = entries s ! index;
               lineToRemove = originalLine entry;
               s1 = (case readFile s of
                       None \<Rightarrow> s
                     | Some content \<Rightarrow>
                         writeFile ok (removeLineFromContent content lineToRemove) s)
           in s1\<lparr>entries := take index (entries s1) @ drop (Suc index) (entries s1)\<rparr>))"


definition getEntriesForDateRange :: "Storage \<Rightarrow> string \<Rightarrow> string \<Rightarrow> TimeEntry list" where
  "getEntriesForDateRange s startDate endDate =
     filter (\<lambda>e. str_le startDate (date e) \<and> str_le (date e) endDate) (entries s)"


section \<open>Slot grid: drag to move and resize (components/WeekGrid.ts)\<close>

text \<open>
  A day has 96 slots of 15 minutes. JavaScript numbers that only ever hold integers are
  modelled as \<open>int\<close>. \<open>deltaSlots\<close> is \<open>Math.round(deltaY / slotHeight)\<close>, an integer.
\<close>

datatype DragMode = Move | ResizeTop | ResizeBottom

record DragState =
  isDragging :: bool
  dragEntryId :: "string option"
  dragMode :: DragMode
  initialStartSlot :: int
  initialEndSlot :: int

text \<open>
  \<open>handleDragMove\<close>: the pair returned is \<open>(newStartSlot, newEndSlot)\<close>, the two
  numbers the source writes (each plus 2) into the grid row of the entry's element. When
  the grid, the dragged entry or its element is missing the source returns before it
  computes anything; the model is the computation.
\<close>

definition handleDragMove :: "DragState \<Rightarrow> int \<Rightarrow> int \<times> int" where
  "handleDragMove ds deltaSlots =
     (case dragMode ds of
        Move \<Rightarrow>
          (let newStartSlot = max 0 (min 95 (initialStartSlot ds + deltaSlots));
               duration = initialEndSlot ds - initialStartSlot ds;
               newEndSlot = min 96 (newStartSlot + duration);
               newStartSlot' = newEndSlot - duration
           in (newStartSlot', newEndSlot))
      | ResizeTop \<Rightarrow>
          (max 0 (min (initialEndSlot ds - 1) (initialStartSlot ds + deltaSlots)),
           initialEndSlot ds)
      | ResizeBottom \<Rightarrow>
          (initialStartSlot ds,
           max (initialStartSlot ds + 1) (min 96 (initialEndSlot ds + deltaSlots))))"

text \<open>The clamp the specification speaks of.\<close>

definition clamp :: "int \<Rightarrow> int \<Rightarrow> int \<Rightarrow> int" where
  "clamp x lo hi = (if x < lo then lo else if hi < x then hi else x)"


section \<open>Pomodoro timer (PomodoroTimer class)\<close>

datatype TimerState = Idle | Running | Paused

datatype TimerMode = Work | Break | LongBreak

record PomodoroTimerOptions =
  workMinutes :: int
  breakMinutes :: int
  longBreakMinutes :: int
  pomodorosBeforeLongBreak :: int

text \<open>
  Dates are milliseconds since the epoch. The two callbacks of the options are the
  timer's outputs: \<open>complete\<close> returns the arguments it hands to \<open>onComplete\<close>.
\<close>

record PomodoroTimer =
  options :: PomodoroTimerOptions
  state :: TimerState
  mode :: TimerMode
  remainingSeconds :: int
  timerStartTime :: "int option"
  intervalId :: "nat option"
  completedPomodoros :: int

fun getDurationForMode :: "PomodoroTimer \<Rightarrow> TimerMode \<Rightarrow> int" where
  "getDurationForMode t Work = workMinutes (options t) * 60"
| "getDurationForMode t Break = breakMinutes (options t) * 60"
| "getDurationForMode t LongBreak = longBreakMinutes (options t) * 60"

definition complete :: "int \<Rightarrow> PomodoroTimer \<Rightarrow> PomodoroTimer \<times> (TimerMode \<times> int option \<times> int)" where
  "complete now t =
     (let t1 = t\<lparr>intervalId := None\<rparr>;
          event = (mode t1, timerStartTime t1, now);
          t2 = (if mode t1 = Work then
                  (let t' = t1\<lparr>completedPomodoros := completedPomodoros t1 + 1\<rparr>
                   in if completedPomodoros t' \<ge> pomodorosBeforeLongBreak (options t')
                      then t'\<lparr>mode := LongBreak, completedPomodoros := 0\<rparr>
                      else t'\<lparr>mode := Break\<rparr>)
                else t1\<lparr>mode := Work\<rparr>);
          t3 = t2\<lparr>remainingSeconds := getDurationForMode t2 (mode t2)\<rparr>
      in (t3\<lparr>state := Idle, timerStartTime := None\<rparr>, event))"

text \<open>
  \<open>tick\<close>: one firing of the one-second interval. The second component lists what was
  emitted: the \<open>onTick\<close> arguments and, on completion, the \<open>onComplete\<close> arguments.
\<close>

definition tick :: "int \<Rightarrow> PomodoroTimer \<Rightarrow>
    PomodoroTimer \<times> (int \<times> TimerMode) \<times> (TimerMode \<times> int option \<times> int) option" where
  "tick now t =
     (let t1 = t\<lparr>remainingSeconds := remainingSeconds t - 1\<rparr>;
          ev = (remainingSeconds t1, mode t1)
      in if remainingSeconds t1 \<le> 0
         then (let (t2, c) = complete now t1 in (t2, ev, Some c))
         else (t1, ev, None))"

section \<open>Theorems\<close>

text \<open>
  C4. Completion of the timer: after a work session the completed-pomodoro count goes up
  by one; if it then reaches the configured number the next mode is the long break and the
  count is reset to 0, otherwise the next mode is the break. After a break or a long break
  the next mode is work and the count is unchanged. In every case the remaining seconds
  are the full duration of the new mode, its configured minutes times 60, and the state
  is idle.
\<close>

theorem complete_transition:
  "(mode t = Work \<and> completedPomodoros t + 1 \<ge> pomodorosBeforeLongBreak (options t) \<longrightarrow>
      mode (fst (complete now t)) = LongBreak \<and> completedPomodoros (fst (complete now t)) = 0
      \<and> remainingSeconds (fst (complete now t)) = longBreakMinutes (options t) * 60)
   \<and> (mode t = Work \<and> completedPomodoros t + 1 < pomodorosBeforeLongBreak (options t) \<longrightarrow>
      mode (fst (complete now t)) = Break \<and>
      completedPomodoros (fst (complete now t)) = completedPomodoros t + 1
      \<and> remainingSeconds (fst (complete now t)) = breakMinutes (options t) * 60)
   \<and> (mode t \<noteq> Work \<longrightarrow>
      mode (fst (complete now t)) = Work \<and>
      completedPomodoros (fst (complete now t)) = completedPomodoros t
      \<and> remainingSeconds (fst (complete now t)) = workMinutes (options t) * 60)
   \<and> remainingSeconds (fst (complete now t)) =
        getDurationForMode t (mode (fst (complete now t)))
   \<and> state (fst (complete now t)) = Idle
   \<and> timerStartTime (fst (complete now t)) = None
   \<and> intervalId (fst (complete now t)) = None
   \<and> options (fst (complete now t)) = options t
   \<and> snd (complete now t) = (mode t, timerStartTime t, now)"
  by (cases "mode t") (simp_all add: complete_def Let_def)

theorem complete_transition_witness:
  "fst (complete 1000
      \<lparr>options = \<lparr>workMinutes = 25, breakMinutes = 5, longBreakMinutes = 15,
                   pomodorosBeforeLongBreak = 4\<rparr>,
       state = Running, mode = Work, remainingSeconds = 0, timerStartTime = Some 0,
       intervalId = Some 1, completedPomodoros = 3\<rparr>)
    = \<lparr>options = \<lparr>workMinutes = 25, breakMinutes = 5, longBreakMinutes = 15,
                   pomodorosBeforeLongBreak = 4\<rparr>,
       state = Idle, mode = LongBreak, remainingSeconds = 900, timerStartTime = None,
       intervalId = None, completedPomodoros = 0\<rparr>
   \<and> fst (complete 1000
      \<lparr>options = \<lparr>workMinutes = 25, breakMinutes = 5, longBreakMinutes = 15,
                   pomodorosBeforeLongBreak = 4\<rparr>,
       state = Running, mode = Work, remainingSeconds = 0, timerStartTime = Some 0,
       intervalId = Some 1, completedPomodoros = 1\<rparr>)
    = \<lparr>options = \<lparr>workMinutes = 25, breakMinutes = 5, longBreakMinutes = 15,
                   pomodorosBeforeLongBreak = 4\<rparr>,
       state = Idle, mode = Break, remainingSeconds = 300, timerStartTime = None,
       intervalId = None, completedPomodoros = 2\<rparr>
   \<and> fst (complete 1000
      \<lparr>options = \<lparr>workMinutes = 25, breakMinutes = 5, longBreakMinutes = 15,
                   pomodorosBeforeLongBreak = 4\<rparr>,
       state = Running, mode = LongBreak, remainingSeconds = 0, timerStartTime = Some 0,
       intervalId = Some 1, completedPomodoros = 2\<rparr>)
    = \<lparr>options = \<lparr>workMinutes = 25, breakMinutes = 5, longBreakMinutes = 15,
                   pomodorosBeforeLongBreak = 4\<rparr>,
       state = Idle, mode = Work, remainingSeconds = 1500, timerStartTime = None,
       intervalId = None, completedPomodoros = 2\<rparr>"
proof -
  let ?o = "\<lparr>workMinutes = 25, breakMinutes = 5, longBreakMinutes = 15,
             pomodorosBeforeLongBreak = 4\<rparr>"
  let ?a = "\<lparr>options = ?o, state = Running, mode = Work, remainingSeconds = 0,
             timerStartTime = Some 0, intervalId = Some 1, completedPomodoros = 3\<rparr>"
  let ?b = "\<lparr>options = ?o, state = Running, mode = Work, remainingSeconds = 0,
             timerStartTime = Some 0, intervalId = Some 1, completedPomodoros = 1\<rparr>"
  let ?c = "\<lparr>options = ?o, state = Running, mode = LongBreak, remainingSeconds = 0,
             timerStartTime = Some 0, intervalId = Some 1, completedPomodoros = 2\<rparr>"
  have eq: "x = y"
    if "options x = options y" "state x = state y" "mode x = mode y"
      "remainingSeconds x = remainingSeconds y" "timerStartTime x = timerStartTime y"
      "intervalId x = intervalId y" "completedPomodoros x = completedPomodoros y"
    for x y :: PomodoroTimer
    using that by simp
  have a: "fst (complete 1000 ?a) = \<lparr>options = ?o, state = Idle, mode = LongBreak,
      remainingSeconds = 900, timerStartTime = None, intervalId = None, completedPomodoros = 0\<rparr>"
    using complete_transition [of ?a 1000] by (intro eq) simp_all
  have b: "fst (complete 1000 ?b) = \<lparr>options = ?o, state = Idle, mode = Break,
      remainingSeconds = 300, timerStartTime = None, intervalId = None, completedPomodoros = 2\<rparr>"
    using complete_transition [of ?b 1000] by (intro eq) simp_all
  have c: "fst (complete 1000 ?c) = \<lparr>options = ?o, state = Idle, mode = Work,
      remainingSeconds = 1500, timerStartTime = None, intervalId = None, completedPomodoros = 2\<rparr>"
    using complete_transition [of ?c 1000] by (intro eq) simp_all
  from a b c show ?thesis by (intro conjI)
qed

text \<open>
  C5. Moving a span with \<open>0 \<le> initialStart < initialEnd \<le> 96\<close> by any number of
  slots: the new start is first the shifted start clamped to \<open>[0, 95]\<close>, the new end is
  the smaller of 96 and that start plus the duration, and the start is then taken back
  from the end. The result has the duration of the initial span and lies within the day.
\<close>

theorem move_keeps_duration:
  assumes "dragMode ds = Move"
    and "0 \<le> initialStartSlot ds"
    and "initialStartSlot ds < initialEndSlot ds"
    and "initialEndSlot ds \<le> 96"
  shows "handleDragMove ds delta =
           (min 96 (clamp (initialStartSlot ds + delta) 0 95
                    + (initialEndSlot ds - initialStartSlot ds))
              - (initialEndSlot ds - initialStartSlot ds),
            min 96 (clamp (initialStartSlot ds + delta) 0 95
                    + (initialEndSlot ds - initialStartSlot ds)))
         \<and> snd (handleDragMove ds delta) - fst (handleDragMove ds delta)
             = initialEndSlot ds - initialStartSlot ds
         \<and> 0 \<le> fst (handleDragMove ds delta)
         \<and> fst (handleDragMove ds delta) < snd (handleDragMove ds delta)
         \<and> snd (handleDragMove ds delta) \<le> 96"
  using assms by (simp add: handleDragMove_def clamp_def Let_def min_def max_def)

theorem move_keeps_duration_witness:
  "handleDragMove \<lparr>isDragging = True, dragEntryId = Some ''20250121_2230_2345'',
      dragMode = Move, initialStartSlot = 90, initialEndSlot = 95\<rparr> 10 = (91, 96)"
  using move_keeps_duration [of
      "\<lparr>isDragging = True, dragEntryId = Some ''20250121_2230_2345'',
        dragMode = Move, initialStartSlot = 90, initialEndSlot = 95\<rparr>" 10]
  by (simp add: clamp_def)

text \<open>
  C6. Resizing a span with \<open>0 \<le> initialStart < initialEnd \<le> 96\<close> by any number of
  slots: dragging the top edge gives the start \<open>clamp (initialStart + delta) 0
  (initialEnd - 1)\<close>, strictly below the unchanged end; dragging the bottom edge gives
  the end \<open>clamp (initialEnd + delta) (initialStart + 1) 96\<close>, strictly above the
  unchanged start. At least one slot is always left.
\<close>

theorem resize_keeps_one_slot:
  assumes "0 \<le> initialStartSlot ds"
    and "initialStartSlot ds < initialEndSlot ds"
    and "initialEndSlot ds \<le> 96"
  shows "(dragMode ds = ResizeTop \<longrightarrow>
            handleDragMove ds delta =
              (clamp (initialStartSlot ds + delta) 0 (initialEndSlot ds - 1), initialEndSlot ds)
            \<and> 0 \<le> fst (handleDragMove ds delta)
            \<and> fst (handleDragMove ds delta) < initialEndSlot ds)
       \<and> (dragMode ds = ResizeBottom \<longrightarrow>
            handleDragMove ds delta =
              (initialStartSlot ds, clamp (initialEndSlot ds + delta) (initialStartSlot ds + 1) 96)
            \<and> initialStartSlot ds < snd (handleDragMove ds delta)
            \<and> snd (handleDragMove ds delta) \<le> 96)
       \<and> (dragMode ds \<noteq> Move \<longrightarrow>
            1 \<le> snd (handleDragMove ds delta) - fst (handleDragMove ds delta))"
  using assms
  by (cases "dragMode ds") (simp_all add: handleDragMove_def clamp_def min_def max_def)

theorem resize_keeps_one_slot_witness:
  "handleDragMove \<lparr>isDragging = True, dragEntryId = Some ''20250121_1000_1100'',
      dragMode = ResizeTop, initialStartSlot = 40, initialEndSlot = 44\<rparr> 30 = (43, 44)
   \<and> handleDragMove \<lparr>isDragging = True, dragEntryId = Some ''20250121_1000_1100'',
      dragMode = ResizeBottom, initialStartSlot = 40, initialEndSlot = 44\<rparr> (- 30) = (40, 41)"
  using
    resize_keeps_one_slot [of
      "\<lparr>isDragging = True, dragEntryId = Some ''20250121_1000_1100'',
        dragMode = ResizeTop, initialStartSlot = 40, initialEndSlot = 44\<rparr>" 30]
    resize_keeps_one_slot [of
      "\<lparr>isDragging = True, dragEntryId = Some ''20250121_1000_1100'',
        dragMode = ResizeBottom, initialStartSlot = 40, initialEndSlot = 44\<rparr>" "- 30"]
  by (simp add: clamp_def)

subsection \<open>Fixed-width fields and the stable id\<close>

lemma list5:
  assumes "length t = 5" obtains a b x c e where "t = [a, b, x, c, e]"
proof -
  from assms have "length t = Suc (Suc (Suc (Suc (Suc 0))))" by simp
  then show ?thesis using that by (auto simp: length_Suc_conv)
qed

lemma list10: 
  assumes "length t = 10" obtains a b c d e f g h i j where "t = [a, b, c, d, e, f, g, h, i, j]"
proof -
  from assms have "length t = Suc (Suc (Suc (Suc (Suc (Suc (Suc (Suc (Suc (Suc 0)))))))))" by simp
  then show ?thesis using that by (auto simp: length_Suc_conv)
qed

lemma is_digit_not_sep:
  "is_digit c \<Longrightarrow> c \<noteq> CHR '':''" "is_digit c \<Longrightarrow> c \<noteq> CHR ''-''"
  by (auto simp: is_digit_def)

lemma date_field_shape:
  assumes "is_date_field d"
  obtains a b c e f g h i where "d = [a, b, c, e, CHR ''-'', f, g, CHR ''-'', h, i]"
    and "is_digit a" "is_digit b" "is_digit c" "is_digit e"
    and "is_digit f" "is_digit g" "is_digit h" "is_digit i"
proof -
  from assms have len: "length d = 10" by (simp add: is_date_field_def)
  then obtain a b c e x f g y h i where d: "d = [a, b, c, e, x, f, g, y, h, i]"
    by (rule list10)
  from assms have "x = CHR ''-''" "y = CHR ''-''" "is_digit a" "is_digit b" "is_digit c" "is_digit e"
     "is_digit f" "is_digit g" "is_digit h" "is_digit i"
    unfolding d is_date_field_def by simp_all
  with d show thesis
    by (intro that[of a b c e f g h i]) simp_all
qed

lemma time_field_shape:
  assumes "is_time_field t"
  obtains a b c e where "t = [a, b, CHR '':'', c, e]"
    and "is_digit a" "is_digit b" "is_digit c" "is_digit e"
proof -
  from assms have len: "length t = 5" by (simp add: is_time_field_def)
  then obtain a b x c e where d: "t = [a, b, x, c, e]"
    by (rule list5)
  from assms have "x = CHR '':''" "is_digit a" "is_digit b" "is_digit c" "is_digit e"
    unfolding d is_time_field_def by simp_all
  with d show thesis
    by (intro that[of a b c e]) simp_all
qed

lemma strip_sep_digits: "list_all is_digit xs \<Longrightarrow> filter (\<lambda>c. c \<noteq> CHR '':'' \<and> c \<noteq> CHR ''-'') xs = xs"
  by (induction xs) (simp_all add: is_digit_not_sep)

lemma date_field_split:
  assumes "is_date_field d"
  shows "d = take 4 d @ CHR ''-'' # take 2 (drop 5 d) @ CHR ''-'' # drop 8 d"
proof -
  from assms obtain a b c e f g h i where "d = [a, b, c, e, CHR ''-'', f, g, CHR ''-'', h, i]"
    by (rule date_field_shape)
  then show ?thesis by simp
qed

lemma time_field_split:
  assumes "is_time_field t"
  shows "t = take 2 t @ CHR '':'' # drop 3 t"
proof -
  from assms obtain a b c e where "t = [a, b, CHR '':'', c, e]"
    by (rule time_field_shape)
  then show ?thesis by simp
qed

lemma strip_date:
  assumes "is_date_field d"
  shows "filter (\<lambda>c. c \<noteq> CHR '':'' \<and> c \<noteq> CHR ''-'') d = take 4 d @ take 2 (drop 5 d) @ drop 8 d"
proof -
  have "filter (\<lambda>c. c \<noteq> CHR '':'' \<and> c \<noteq> CHR ''-'') d
      = filter (\<lambda>c. c \<noteq> CHR '':'' \<and> c \<noteq> CHR ''-'') (take 4 d @ CHR ''-'' # take 2 (drop 5 d) @ CHR ''-'' # drop 8 d)"
    using date_field_split[OF assms] by simp
  also have "\<dots> = take 4 d @ take 2 (drop 5 d) @ drop 8 d"
    using assms by (simp add: is_date_field_def strip_sep_digits)
  finally show ?thesis .
qed

lemma strip_time:
  assumes "is_time_field t"
  shows "filter (\<lambda>c. c \<noteq> CHR '':'' \<and> c \<noteq> CHR ''-'') t = take 2 t @ drop 3 t"
proof -
  have "filter (\<lambda>c. c \<noteq> CHR '':'' \<and> c \<noteq> CHR ''-'') t
      = filter (\<lambda>c. c \<noteq> CHR '':'' \<and> c \<noteq> CHR ''-'') (take 2 t @ CHR '':'' # drop 3 t)"
    using time_field_split[OF assms] by simp
  also have "\<dots> = take 2 t @ drop 3 t"
    using assms by (simp add: is_time_field_def strip_sep_digits)
  finally show ?thesis .
qed

lemma generateStableId_shape:
  assumes "is_date_field d" "is_time_field s" "is_time_field e"
  shows "generateStableId d s e =
     (take 4 d @ take 2 (drop 5 d) @ drop 8 d) @ ''_'' @ (take 2 s @ drop 3 s) @ ''_'' @ (take 2 e @ drop 3 e)"
  by (simp add: generateStableId_def strip_date[OF assms(1)] strip_time[OF assms(2)] strip_time[OF assms(3)])

lemma append_eq_same_length:
  assumes "length a = length b" "a @ x = b @ y"
  shows "a = b" "x = y"
  using assms by simp_all

lemma date_parts_eq:
  assumes "is_date_field d1" "is_date_field d2"
    and "take 4 d1 @ take 2 (drop 5 d1) @ drop 8 d1 = take 4 d2 @ take 2 (drop 5 d2) @ drop 8 d2"
  shows "d1 = d2"
proof -
  from assms(1) obtain a b c e f g h i where d1: "d1 = [a, b, c, e, CHR ''-'', f, g, CHR ''-'', h, i]"
    by (rule date_field_shape)
  from assms(2) obtain a' b' c' e' f' g' h' i' where d2: "d2 = [a', b', c', e', CHR ''-'', f', g', CHR ''-'', h', i']"
    by (rule date_field_shape)
  from assms(3) show ?thesis by (simp add: d1 d2)
qed

lemma time_parts_eq:
  assumes "is_time_field t1" "is_time_field t2"
    and "take 2 t1 @ drop 3 t1 = take 2 t2 @ drop 3 t2"
  shows "t1 = t2"
proof -
  from assms(1) obtain a b c e where t1: "t1 = [a, b, CHR '':'', c, e]"
    by (rule time_field_shape)
  from assms(2) obtain a' b' c' e' where t2: "t2 = [a', b', CHR '':'', c', e']"
    by (rule time_field_shape)
  from assms(3) show ?thesis by (simp add: t1 t2)
qed

text \<open>
  C10. \<open>generateStableId\<close> is injective on well-formed fields: for dates of the
  form YYYY-MM-DD and times of the form HH:MM, two ids are equal exactly when the dates,
  the start times and the end times are equal.
\<close>

theorem generateStableId_injective:
  assumes "is_date_field d1" "is_time_field s1" "is_time_field e1"
    and "is_date_field d2" "is_time_field s2" "is_time_field e2"
  shows "generateStableId d1 s1 e1 = generateStableId d2 s2 e2
         \<longleftrightarrow> d1 = d2 \<and> s1 = s2 \<and> e1 = e2"
proof
  assume eq: "generateStableId d1 s1 e1 = generateStableId d2 s2 e2"
  have l1: "length (take 4 d1 @ take 2 (drop 5 d1) @ drop 8 d1) = length (take 4 d2 @ take 2 (drop 5 d2) @ drop 8 d2)"
    using assms(1,4) by (simp add: is_date_field_def)
  have l2: "length (take 2 s1 @ drop 3 s1) = length (take 2 s2 @ drop 3 s2)"
    using assms(2,5) by (simp add: is_time_field_def)
  from eq have "(take 4 d1 @ take 2 (drop 5 d1) @ drop 8 d1) @ ''_'' @ (take 2 s1 @ drop 3 s1) @ ''_'' @ (take 2 e1 @ drop 3 e1)
     = (take 4 d2 @ take 2 (drop 5 d2) @ drop 8 d2) @ ''_'' @ (take 2 s2 @ drop 3 s2) @ ''_'' @ (take 2 e2 @ drop 3 e2)"
    by (simp only: generateStableId_shape[OF assms(1-3)] generateStableId_shape[OF assms(4-6)])
  then have a: "take 4 d1 @ take 2 (drop 5 d1) @ drop 8 d1 = take 4 d2 @ take 2 (drop 5 d2) @ drop 8 d2"
    and r: "''_'' @ (take 2 s1 @ drop 3 s1) @ ''_'' @ (take 2 e1 @ drop 3 e1) = ''_'' @ (take 2 s2 @ drop 3 s2) @ ''_'' @ (take 2 e2 @ drop 3 e2)"
    using l1 by (rule append_eq_same_length[rotated])+
  from r have r': "(take 2 s1 @ drop 3 s1) @ ''_'' @ (take 2 e1 @ drop 3 e1) = (take 2 s2 @ drop 3 s2) @ ''_'' @ (take 2 e2 @ drop 3 e2)"
    by simp
  then have b: "take 2 s1 @ drop 3 s1 = take 2 s2 @ drop 3 s2"
    and c': "''_'' @ (take 2 e1 @ drop 3 e1) = ''_'' @ (take 2 e2 @ drop 3 e2)"
    using l2 by (rule append_eq_same_length[rotated])+
  from c' have c: "take 2 e1 @ drop 3 e1 = take 2 e2 @ drop 3 e2" by simp
  show "d1 = d2 \<and> s1 = s2 \<and> e1 = e2"
    using date_parts_eq[OF assms(1,4) a] time_parts_eq[OF assms(2,5) b] time_parts_eq[OF assms(3,6) c]
    by simp
next
  assume "d1 = d2 \<and> s1 = s2 \<and> e1 = e2"
  then show "generateStableId d1 s1 e1 = generateStableId d2 s2 e2" by simp
qed

theorem generateStableId_injective_witness:
  "generateStableId ''2025-01-21'' ''11:00'' ''12:30'' = ''20250121_1100_1230''
   \<and> generateStableId ''2025-01-21'' ''11:00'' ''12:30''
       \<noteq> generateStableId ''2025-01-21'' ''11:00'' ''12:45''"
  using generateStableId_injective [of "''2025-01-21''" "''11:00''" "''12:30''"
      "''2025-01-21''" "''11:00''" "''12:45''"]
  by (simp add: is_date_field_def is_time_field_def is_digit_def generateStableId_def)

subsection \<open>Times of day as strings\<close>






lemma digit_char_code: "(n::nat) < 10 \<Longrightarrow> (of_char (char_of (48 + n)) :: nat) = 48 + n"
  by simp










subsection \<open>Looking up and updating records\<close>


lemma findIndex_Some_holds: "findIndex P xs = Some i \<Longrightarrow> P (xs ! i)"
  by (induction xs arbitrary: i) (auto split: if_splits)

lemma findIndex_Some_first: "findIndex P xs = Some i \<Longrightarrow> j < i \<Longrightarrow> \<not> P (xs ! j)"
proof (induction xs arbitrary: i j)
  case Nil
  then show ?case by simp
next
  case (Cons x xs)
  then show ?case by (cases j) (auto split: if_splits)
qed

lemma findIndex_None_iff: "findIndex P xs = None \<longleftrightarrow> (\<forall>x\<in>set xs. \<not> P x)"
  by (induction xs) auto




text \<open>
  C3. For an id that no record in memory has, \<open>updateEntry\<close> and \<open>deleteEntry\<close> do
  nothing: they return normally and leave the records, the content of the file and the
  saving flag as they were, whatever the update and whether or not the vault would accept
  a write.
\<close>

theorem unknown_id_is_noop:
  assumes "\<forall>e \<in> set (entries s). eid e \<noteq> ident"
  shows "updateEntry ok ident updates s = s \<and> deleteEntry ok ident s = s"
proof -
  from assms have "findIndex (\<lambda>e. eid e = ident) (entries s) = None"
    by (simp add: findIndex_None_iff)
  then show ?thesis by (simp add: updateEntry_def deleteEntry_def)
qed

theorem unknown_id_is_noop_witness:
  "updateEntry True ''20250121_0900_1000''
      (noUpdates\<lparr>upd_description := Some ''Standup''\<rparr>)
      \<lparr>entries = [\<lparr>eid = ''20250121_1100_1230'', date = ''2025-01-21'', startTime = ''11:00'',
           endTime = ''12:30'', description = ''Meeting'', tags = [], isPomodoro = False,
           isBreak = False, originalLine = ''2025-01-21 11:00 - 12:30 | Meeting''\<rparr>],
        fileContent = Some ''2025-01-21 11:00 - 12:30 | Meeting'', isSaving = False\<rparr>
    = \<lparr>entries = [\<lparr>eid = ''20250121_1100_1230'', date = ''2025-01-21'', startTime = ''11:00'',
           endTime = ''12:30'', description = ''Meeting'', tags = [], isPomodoro = False,
           isBreak = False, originalLine = ''2025-01-21 11:00 - 12:30 | Meeting''\<rparr>],
        fileContent = Some ''2025-01-21 11:00 - 12:30 | Meeting'', isSaving = False\<rparr>
   \<and> deleteEntry True ''20250121_0900_1000''
      \<lparr>entries = [\<lparr>eid = ''20250121_1100_1230'', date = ''2025-01-21'', startTime = ''11:00'',
           endTime = ''12:30'', description = ''Meeting'', tags = [], isPomodoro = False,
           isBreak = False, originalLine = ''2025-01-21 11:00 - 12:30 | Meeting''\<rparr>],
        fileContent = Some ''2025-01-21 11:00 - 12:30 | Meeting'', isSaving = False\<rparr>
    = \<lparr>entries = [\<lparr>eid = ''20250121_1100_1230'', date = ''2025-01-21'', startTime = ''11:00'',
           endTime = ''12:30'', description = ''Meeting'', tags = [], isPomodoro = False,
           isBreak = False, originalLine = ''2025-01-21 11:00 - 12:30 | Meeting''\<rparr>],
        fileContent = Some ''2025-01-21 11:00 - 12:30 | Meeting'', isSaving = False\<rparr>"
  using unknown_id_is_noop [of
      "\<lparr>entries = [\<lparr>eid = ''20250121_1100_1230'', date = ''2025-01-21'', startTime = ''11:00'',
           endTime = ''12:30'', description = ''Meeting'', tags = [], isPomodoro = False,
           isBreak = False, originalLine = ''2025-01-21 11:00 - 12:30 | Meeting''\<rparr>],
        fileContent = Some ''2025-01-21 11:00 - 12:30 | Meeting'', isSaving = False\<rparr>"
      "''20250121_0900_1000''" True "noUpdates\<lparr>upd_description := Some ''Standup''\<rparr>"]
  by simp

subsection \<open>Lines of the file\<close>

lemma split_on_not_Nil: "split_on sep s \<noteq> []"
  by (induction s) (auto split: list.split)

lemma join_Cons_Cons: "xs \<noteq> [] \<Longrightarrow> join sep (x # xs) = x @ sep @ join sep xs"
  by (cases xs) simp_all

lemma join_push: "join sep ((c # x) # xs) = c # join sep (x # xs)"
  by (cases xs) simp_all

lemma join_split_on: "join [sep] (split_on sep s) = s"
proof (induction s)
  case Nil
  then show ?case by simp
next
  case (Cons c s)
  show ?case
  proof (cases "c = sep")
    case True
    then show ?thesis using Cons by (simp add: join_Cons_Cons split_on_not_Nil)
  next
    case False
    obtain x xs where sp: "split_on sep s = x # xs"
      using split_on_not_Nil[of sep s] by (cases "split_on sep s") auto
    with False Cons show ?thesis by (simp add: join_push)
  qed
qed

lemma findIndex_first_match:
  "\<forall>x\<in>set pre. \<not> P x \<Longrightarrow> P l \<Longrightarrow> findIndex P (pre @ l # post) = Some (length pre)"
  by (induction pre) simp_all

lemma first_match_exists:
  assumes "\<exists>x\<in>set xs. P x"
  shows "\<exists>pre l post. xs = pre @ l # post \<and> (\<forall>x\<in>set pre. \<not> P x) \<and> P l"
  using assms
proof (induction xs)
  case Nil
  then show ?case by simp
next
  case (Cons a xs)
  show ?case
  proof (cases "P a")
    case True
    then have "a # xs = [] @ a # xs \<and> (\<forall>x\<in>set []. \<not> P x) \<and> P a" by simp
    then show ?thesis by blast
  next
    case False
    with Cons obtain pre l post where "xs = pre @ l # post" "\<forall>x\<in>set pre. \<not> P x" "P l"
      by auto
    with False have "a # xs = (a # pre) @ l # post \<and> (\<forall>x\<in>set (a # pre). \<not> P x) \<and> P l"
      by simp
    then show ?thesis by blast
  qed
qed

lemma ENTRY_REGEX_Nil: "ENTRY_REGEX [] = None"
  by (simp add: ENTRY_REGEX_def is_date_field_def)

lemma parseLine_of_match:
  assumes "ENTRY_REGEX (trim l) \<noteq> None"
  shows "parseLine l \<noteq> None"
proof -
  from assms have "trim l \<noteq> []" using ENTRY_REGEX_Nil by auto
  with assms show ?thesis
    by (auto simp: parseLine_def Let_def split: prod.split)
qed

text \<open>
  C2 (amended). Replacing or removing a line by its text changes at most one line of the
  file, the first one whose trimmed text is the target: when no line has that trimmed
  text the content is returned as it is; otherwise the lines before and after the first
  such line are kept as they are and in their order, and that line alone is replaced by
  the new line, or dropped. When the target itself matches the entry grammar, the line
  that is changed is an entry line, so no line outside the grammar is modified.
\<close>

theorem line_ops_touch_first_match_only:
  "((\<forall>x \<in> set (split_on CHR 0x0A content). trim x \<noteq> target) \<longrightarrow>
       replaceLineInContent content target newLine = content \<and>
       removeLineFromContent content target = content)
   \<and> (split_on CHR 0x0A content = pre @ l # post \<and> (\<forall>x \<in> set pre. trim x \<noteq> target) \<and>
       trim l = target \<longrightarrow>
       replaceLineInContent content target newLine = join [CHR 0x0A] (pre @ newLine # post) \<and>
       removeLineFromContent content target = join [CHR 0x0A] (pre @ post) \<and>
       (ENTRY_REGEX target \<noteq> None \<longrightarrow> parseLine l \<noteq> None))
   \<and> ((\<exists>x \<in> set (split_on CHR 0x0A content). trim x = target) \<longrightarrow>
       (\<exists>pre l post. split_on CHR 0x0A content = pre @ l # post \<and>
           (\<forall>x \<in> set pre. trim x \<noteq> target) \<and> trim l = target))"
proof (intro conjI impI)
  assume none: "\<forall>x \<in> set (split_on CHR 0x0A content). trim x \<noteq> target"
  then have "findIndex (\<lambda>l. trim l = target) (split_on CHR 0x0A content) = None"
    by (simp add: findIndex_None_iff)
  then show "replaceLineInContent content target newLine = content"
    and "removeLineFromContent content target = content"
    by (simp_all add: replaceLineInContent_def removeLineFromContent_def join_split_on)
next
  assume h: "split_on CHR 0x0A content = pre @ l # post \<and> (\<forall>x \<in> set pre. trim x \<noteq> target) \<and>
       trim l = target"
  then have fi: "findIndex (\<lambda>l. trim l = target) (split_on CHR 0x0A content) = Some (length pre)"
    by (simp add: findIndex_first_match)
  from h fi show "replaceLineInContent content target newLine = join [CHR 0x0A] (pre @ newLine # post)"
    by (simp add: replaceLineInContent_def)
  from h fi show "removeLineFromContent content target = join [CHR 0x0A] (pre @ post)"
    by (simp add: removeLineFromContent_def)
  assume "ENTRY_REGEX target \<noteq> None"
  with h show "parseLine l \<noteq> None" by (simp add: parseLine_of_match)
next
  assume "\<exists>x \<in> set (split_on CHR 0x0A content). trim x = target"
  then show "\<exists>pre l post. split_on CHR 0x0A content = pre @ l # post \<and>
           (\<forall>x \<in> set pre. trim x \<noteq> target) \<and> trim l = target"
    using first_match_exists[of "split_on CHR 0x0A content" "\<lambda>x. trim x = target"] by simp
qed

theorem line_ops_touch_first_match_only_witness:
  "replaceLineInContent
      (''# Log'' @ [CHR 0x0A] @ ''  2025-01-21 11:00 - 12:30 | x  '' @ [CHR 0x0A] @ ''notes''
        @ [CHR 0x0A] @ ''2025-01-21 11:00 - 12:30 | x'')
      ''2025-01-21 11:00 - 12:30 | x'' ''2025-01-21 11:00 - 12:45 | x''
    = ''# Log'' @ [CHR 0x0A] @ ''2025-01-21 11:00 - 12:45 | x'' @ [CHR 0x0A] @ ''notes''
        @ [CHR 0x0A] @ ''2025-01-21 11:00 - 12:30 | x''
   \<and> removeLineFromContent
      (''# Log'' @ [CHR 0x0A] @ ''  2025-01-21 11:00 - 12:30 | x  '' @ [CHR 0x0A] @ ''notes''
        @ [CHR 0x0A] @ ''2025-01-21 11:00 - 12:30 | x'')
      ''2025-01-21 11:00 - 12:30 | x''
    = ''# Log'' @ [CHR 0x0A] @ ''notes'' @ [CHR 0x0A] @ ''2025-01-21 11:00 - 12:30 | x''
   \<and> parseLine ''  2025-01-21 11:00 - 12:30 | x  '' \<noteq> None
   \<and> replaceLineInContent (''# Log'' @ [CHR 0x0A] @ ''notes'')
      ''2025-01-21 11:00 - 12:30 | x'' ''2025-01-21 11:00 - 12:45 | x''
    = ''# Log'' @ [CHR 0x0A] @ ''notes''"
proof -
  let ?content = "''# Log'' @ [CHR 0x0A] @ ''  2025-01-21 11:00 - 12:30 | x  '' @ [CHR 0x0A] @ ''notes''
        @ [CHR 0x0A] @ ''2025-01-21 11:00 - 12:30 | x''"
  let ?target = "''2025-01-21 11:00 - 12:30 | x''"
  let ?new = "''2025-01-21 11:00 - 12:45 | x''"
  let ?pre = "[''# Log'']"
  let ?l = "''  2025-01-21 11:00 - 12:30 | x  ''"
  let ?post = "[''notes'', ''2025-01-21 11:00 - 12:30 | x'']"
  have h: "split_on CHR 0x0A ?content = ?pre @ ?l # ?post \<and> (\<forall>x \<in> set ?pre. trim x \<noteq> ?target) \<and>
       trim ?l = ?target"
    by code_simp
  have g: "ENTRY_REGEX ?target \<noteq> None" by code_simp
  have n: "\<forall>x \<in> set (split_on CHR 0x0A (''# Log'' @ [CHR 0x0A] @ ''notes'')). trim x \<noteq> ?target"
    by code_simp
  have j: "join [CHR 0x0A] (?pre @ ?new # ?post) = ''# Log'' @ [CHR 0x0A] @ ?new @ [CHR 0x0A] @ ''notes''
        @ [CHR 0x0A] @ ''2025-01-21 11:00 - 12:30 | x''"
    "join [CHR 0x0A] (?pre @ ?post) = ''# Log'' @ [CHR 0x0A] @ ''notes'' @ [CHR 0x0A] @ ''2025-01-21 11:00 - 12:30 | x''"
    by simp_all
  from line_ops_touch_first_match_only [of ?content ?target ?new ?pre ?l ?post] h g
  have a: "replaceLineInContent ?content ?target ?new = join [CHR 0x0A] (?pre @ ?new # ?post)"
    and b: "removeLineFromContent ?content ?target = join [CHR 0x0A] (?pre @ ?post)"
    and c: "parseLine ?l \<noteq> None"
    by blast+
  from line_ops_touch_first_match_only [of "''# Log'' @ [CHR 0x0A] @ ''notes''" ?target ?new] n
  have d: "replaceLineInContent (''# Log'' @ [CHR 0x0A] @ ''notes'') ?target ?new = ''# Log'' @ [CHR 0x0A] @ ''notes''"
    by blast
  show ?thesis
    using a b c d unfolding j by blast
qed

text \<open>
  The claim as stated, for every target text, fails: a target that is not an entry line
  makes both operations change a line that does not match the entry grammar.
\<close>

theorem line_ops_non_entry_target_counterexample:
  "parseLine ''# Time log'' = None
   \<and> replaceLineInContent (''# Time log'' @ [CHR 0x0A] @ ''2025-01-21 11:00 - 12:30 | x'')
        ''# Time log'' ''2025-01-21 09:00 - 10:00 | y''
      = ''2025-01-21 09:00 - 10:00 | y'' @ [CHR 0x0A] @ ''2025-01-21 11:00 - 12:30 | x''
   \<and> removeLineFromContent (''# Time log'' @ [CHR 0x0A] @ ''2025-01-21 11:00 - 12:30 | x'')
        ''# Time log''
      = ''2025-01-21 11:00 - 12:30 | x''"
  by code_simp

subsection \<open>Markers in the description part\<close>


text \<open>
  C7. The marker \<open>(pomodoro)\<close> is looked for with the letter case it is written in:
  a line whose description part holds \<open>(Pomodoro)\<close> loses the marker from its
  description but is not read as a pomodoro entry, while the same line with the marker in
  lower case is.
\<close>

theorem pomodoro_marker_in_capitals:
  "parseLine ''2025-01-21 14:00 - 14:25 | Deep work (Pomodoro)''
     = Some \<lparr>eid = ''20250121_1400_1425'', date = ''2025-01-21'', startTime = ''14:00'',
             endTime = ''14:25'', description = ''Deep work'', tags = [],
             isPomodoro = False, isBreak = False,
             originalLine = ''2025-01-21 14:00 - 14:25 | Deep work (Pomodoro)''\<rparr>
   \<and> parseLine ''2025-01-21 14:00 - 14:25 | Deep work (pomodoro)''
     = Some \<lparr>eid = ''20250121_1400_1425'', date = ''2025-01-21'', startTime = ''14:00'',
             endTime = ''14:25'', description = ''Deep work'', tags = [],
             isPomodoro = True, isBreak = False,
             originalLine = ''2025-01-21 14:00 - 14:25 | Deep work (pomodoro)''\<rparr>"
  by code_simp

text \<open>
  C8. The break test is made on the description part as it is written, tags included,
  while the description is cleaned of tags first: a line whose description part is
  \<open>break #rest\<close> leaves \<open>break\<close> after tag extraction and yet is not read as a break
  entry, and \<open>tea (break#x)\<close> loses the marker \<open>(break)\<close> from its description without
  being a break entry. The store's own encoding of a break record with a tag,
  \<open>Break #rest\<close>, is read back with the break flag gone.
\<close>

theorem break_with_tag_not_read_as_break:
  "parseLine ''2025-01-21 14:25 - 14:30 | break #rest''
     = Some \<lparr>eid = ''20250121_1425_1430'', date = ''2025-01-21'', startTime = ''14:25'',
             endTime = ''14:30'', description = ''break'', tags = [''rest''],
             isPomodoro = False, isBreak = False,
             originalLine = ''2025-01-21 14:25 - 14:30 | break #rest''\<rparr>
   \<and> isBreak_after_tag_extraction ''break #rest''
   \<and> parseDescription ''tea (break#x)'' = (''tea'', [''x''], False, False)
   \<and> isBreak_after_tag_extraction ''tea (break#x)''
   \<and> formatEntry \<lparr>eid = ''20250121_1425_1430'', date = ''2025-01-21'', startTime = ''14:25'',
             endTime = ''14:30'', description = ''Break'', tags = [''rest''],
             isPomodoro = False, isBreak = True, originalLine = []\<rparr>
       = ''2025-01-21 14:25 - 14:30 | Break #rest''
   \<and> parseContent ''2025-01-21 14:25 - 14:30 | Break #rest''
       = [\<lparr>eid = ''20250121_1425_1430'', date = ''2025-01-21'', startTime = ''14:25'',
             endTime = ''14:30'', description = ''Break'', tags = [''rest''],
             isPomodoro = False, isBreak = False,
             originalLine = ''2025-01-21 14:25 - 14:30 | Break #rest''\<rparr>]"
  by code_simp

subsection \<open>Character classes\<close>

lemma space_facts [simp]:
  "is_space CHR '' ''" "\<not> is_word CHR '' ''" "\<not> is_space CHR ''#''" "\<not> is_word CHR ''#''"
  "\<not> is_space CHR ''|''" "\<not> is_space CHR ''-''" "\<not> is_line_terminator CHR '' ''"
  "\<not> is_line_terminator CHR ''#''" "toLower CHR '' '' = CHR '' ''" "toLower CHR ''#'' = CHR ''#''"
  by (simp_all add: is_space_def is_word_def is_line_terminator_def toLower_def)




lemma word_not_paren: "is_word c \<Longrightarrow> c \<noteq> CHR ''(''"
  by (auto simp: is_word_def Let_def)

lemma of_char_toLower:
  "(of_char (toLower c) :: nat) =
     (if (65 \<le> (of_char c :: nat) \<and> (of_char c :: nat) \<le> 90) \<or>
         (192 \<le> (of_char c :: nat) \<and> (of_char c :: nat) \<le> 222 \<and> (of_char c :: nat) \<noteq> 215)
      then of_char c + 32 else of_char c)"
  by (simp add: toLower_def Let_def)

lemma is_space_toLower [simp]: "is_space (toLower c) = is_space c"
  unfolding is_space_def Let_def of_char_toLower by auto

lemma toLower_eq_hash: "toLower c = CHR ''#'' \<longleftrightarrow> c = CHR ''#''"
proof -
  have "toLower c = CHR ''#'' \<longleftrightarrow> (of_char (toLower c) :: nat) = of_char (CHR ''#'')"
    by (simp only: of_char_eq_iff)
  also have "\<dots> \<longleftrightarrow> (of_char c :: nat) = 35"
    unfolding of_char_toLower by auto
  also have "\<dots> \<longleftrightarrow> (of_char c :: nat) = of_char (CHR ''#'')" by simp
  also have "\<dots> \<longleftrightarrow> c = CHR ''#''" by (simp only: of_char_eq_iff)
  finally show ?thesis .
qed


subsection \<open>A text followed by words, each after one space\<close>


lemma includes_js_Nil_pat: "pat \<noteq> [] \<Longrightarrow> \<not> includes_js [] pat"
  by simp





lemma includes_js_self: "pat \<noteq> [] \<Longrightarrow> includes_js pat pat"
  by (cases pat) auto


subsection \<open>Tags and markers in a text followed by words\<close>











subsection \<open>Trimming\<close>




lemma trim_dropWhile: "trim (dropWhile is_space xs) = trim xs"
  by (simp add: trim_def)





lemma trim_id:
  assumes "xs \<noteq> []" "\<not> is_space (hd xs)" "\<not> is_space (last xs)"
  shows "trim xs = xs"
proof -
  from assms(1,2) have a: "dropWhile is_space xs = xs" by (cases xs) simp_all
  from assms(1,3) have "rev xs \<noteq> []" "\<not> is_space (hd (rev xs))" by (simp_all add: hd_rev)
  then have "dropWhile is_space (rev xs) = rev xs" by (cases "rev xs") simp_all
  then show ?thesis by (simp add: trim_def a)
qed



lemma trim_no_trailing:
  assumes "body = [] \<or> \<not> is_space (last body)"
  shows "trim body = dropWhile is_space body"
proof (cases "dropWhile is_space body = []")
  case True
  show ?thesis unfolding trim_def True by simp
next
  case False
  then have ne: "body \<noteq> []" by auto
  with assms have l: "\<not> is_space (last body)" by simp
  have "last (takeWhile is_space body @ dropWhile is_space body) = last (dropWhile is_space body)"
    using False by (rule last_appendR)
  then have "last body = last (dropWhile is_space body)"
    by (simp only: takeWhile_dropWhile_id)
  with l have "\<not> is_space (last (dropWhile is_space body))" by simp
  moreover have "\<not> is_space (hd (dropWhile is_space body))" using False by (rule hd_dropWhile)
  ultimately have "trim (dropWhile is_space body) = dropWhile is_space body"
    using False by (intro trim_id)
  then show ?thesis by (simp add: trim_dropWhile)
qed

subsection \<open>The entry grammar on a formatted line\<close>






subsection \<open>Decoding the description part of a formatted line\<close>





























subsection \<open>What a line that parses holds\<close>









lemma parseLine_trim: "trim a = trim b \<Longrightarrow> parseLine a = parseLine b"
  by (simp add: parseLine_def)



subsection \<open>The line written for a record that was read from the file\<close>






subsection \<open>Reading back the lines that were joined\<close>






subsection \<open>Time fields and the total of a day\<close>









subsection \<open>Committing a drag\<close>









end
